theory Spec2Isabelle
  imports Main "HOL-Library.Sublist"
begin

section \<open>Python strings\<close>

text \<open>
  Strings are lists of characters. The character classes below are the ASCII part of
  Python's \<^verbatim>\<open>str.isspace\<close>, \<^verbatim>\<open>str.isupper\<close>, \<^verbatim>\<open>str.lower\<close> and of the
  regular expression class \<^verbatim>\<open>\w\<close>; \<open>length\<close> counts characters as \<^verbatim>\<open>len\<close> does.
  The substring test \<^verbatim>\<open>a in b\<close> is \<open>sublist a b\<close>.
\<close>

definition code_point :: "char \<Rightarrow> nat" where
  "code_point c = of_char c"

definition isspace :: "char \<Rightarrow> bool" where
  "isspace c = (code_point c = 32 \<or> (9 \<le> code_point c \<and> code_point c \<le> 13)
                \<or> (28 \<le> code_point c \<and> code_point c \<le> 31))"

definition is_upper_char :: "char \<Rightarrow> bool" where
  "is_upper_char c = (65 \<le> code_point c \<and> code_point c \<le> 90)"

definition is_lower_char :: "char \<Rightarrow> bool" where
  "is_lower_char c = (97 \<le> code_point c \<and> code_point c \<le> 122)"

definition is_digit_char :: "char \<Rightarrow> bool" where
  "is_digit_char c = (48 \<le> code_point c \<and> code_point c \<le> 57)"

definition is_word_char :: "char \<Rightarrow> bool" where
  "is_word_char c = (is_upper_char c \<or> is_lower_char c \<or> is_digit_char c \<or> code_point c = 95)"

definition lower_char :: "char \<Rightarrow> char" where
  "lower_char c = (if is_upper_char c then char_of (code_point c + 32) else c)"

definition lower :: "string \<Rightarrow> string" where
  "lower s = map lower_char s"

text \<open>\<^verbatim>\<open>s.isupper()\<close>: at least one cased character, and no lowercase one.\<close>

definition isupper :: "string \<Rightarrow> bool" where
  "isupper s = (list_ex is_upper_char s \<and> list_all (\<lambda>c. \<not> is_lower_char c) s)"

definition strip :: "string \<Rightarrow> string" where
  "strip s = rev (dropWhile isspace (rev (dropWhile isspace s)))"

text \<open>\<^verbatim>\<open>s.split(d)\<close> for a one-character separator: never the empty list.\<close>

fun split_on :: "char \<Rightarrow> string \<Rightarrow> string list" where
  "split_on d [] = [[]]"
| "split_on d (c # cs) =
     (if c = d then [] # split_on d cs
      else (case split_on d cs of [] \<Rightarrow> [[c]] | l # ls \<Rightarrow> (c # l) # ls))"

fun join :: "string \<Rightarrow> string list \<Rightarrow> string" where
  "join sep [] = []"
| "join sep [x] = x"
| "join sep (x # y # ys) = x @ sep @ join sep (y # ys)"

definition newline :: char where
  "newline = CHR 0x0A"

text \<open>
  \<^verbatim>\<open>re.findall(r'\b\w{n,}\b', s)\<close>: the maximal runs of word characters of length at
  least \<open>n\<close>, from left to right. \<open>word_runs\<close> carries the run being read.
\<close>

fun word_runs :: "string \<Rightarrow> string \<Rightarrow> string list" where
  "word_runs run [] = (if run = [] then [] else [run])"
| "word_runs run (c # cs) =
     (if is_word_char c then word_runs (run @ [c]) cs
      else if run = [] then word_runs [] cs
      else run # word_runs [] cs)"

definition findall_words :: "nat \<Rightarrow> string \<Rightarrow> string list" where
  "findall_words n s = filter (\<lambda>w. n \<le> length w) (word_runs [] s)"

text \<open>\<^verbatim>\<open>xs[:n]\<close> for a Python integer \<open>n\<close>: a negative \<open>n\<close> counts from the end.\<close>

definition slice_to :: "int \<Rightarrow> 'a list \<Rightarrow> 'a list" where
  "slice_to n xs = (if 0 \<le> n then take (nat n) xs else take (length xs - nat (- n)) xs)"

fun show_nat :: "nat \<Rightarrow> string" where
  "show_nat n = (if n < 10 then [''0123456789'' ! n]
                 else show_nat (n div 10) @ [''0123456789'' ! (n mod 10)])"

section \<open>The result of a fetch\<close>

text \<open>
  The dictionaries the fetchers return, with an absent key as \<open>None\<close>. The strategy
  that produced a result is its \<open>method_name\<close> (the key \<^verbatim>\<open>"method"\<close>).
\<close>

record fetch_result =
  success :: bool
  title :: "string option"
  content :: "string option"
  url :: "string option"
  method_name :: "string option"
  error :: "string option"
  warning :: "string option"
  suggestion :: "string option"
  content_length :: "nat option"
  status_code :: "nat option"

definition failure :: "string \<Rightarrow> fetch_result" where
  "failure msg = \<lparr>success = False, title = None, content = None, url = None,
     method_name = None, error = Some msg, warning = None, suggestion = None,
     content_length = None, status_code = None\<rparr>"

definition fetched :: "string \<Rightarrow> string \<Rightarrow> string \<Rightarrow> string \<Rightarrow> fetch_result" where
  "fetched t c u m = \<lparr>success = True, title = Some t, content = Some c, url = Some u,
     method_name = Some m, error = None, warning = None, suggestion = None,
     content_length = None, status_code = None\<rparr>"

text \<open>\<^verbatim>\<open>result.get("content", "")\<close>\<close>

definition get_content :: "fetch_result \<Rightarrow> string" where
  "get_content r = (case content r of None \<Rightarrow> [] | Some c \<Rightarrow> c)"

section \<open>The outside world\<close>

text \<open>
  Every library call that leaves the process is answered by the world: the reply of
  newspaper3k's download and parse, of \<^verbatim>\<open>feedparser.parse\<close>, of the HTTP session and
  of the BeautifulSoup queries on the page it returned. A reply that raises is a
  constructor of its own. One world holds the replies given during one call of a
  fetcher; each call site runs at most once per call, so it has its own reply.
\<close>

datatype article_reply = ArticleRaises | ArticleParsed string string

record feed_entry =
  link :: "string option"
  entry_title :: "string option"
  summary :: "string option"
  description :: "string option"
  published :: "string option"

datatype select_reply = SelectRaises | NoMatch | Matched string

text \<open>
  The parsed page after the non-content tags are removed: the element found for each
  title selector (its \<^verbatim>\<open>content\<close> attribute and its text), the text of the first
  element matching a CSS selector, the stripped texts of the paragraphs, the texts of
  the divisions whose class names content, article or story, and the text of the body.
\<close>

record page =
  find_title :: "string \<Rightarrow> (string option \<times> string) option"
  select_one :: "string \<Rightarrow> select_reply"
  paragraphs :: "string list"
  content_divs :: "string list"
  body_text :: "string option"

datatype soup_reply = SoupRaises string | Soup page

datatype http_reply =
    Timeout
  | ConnectionError
  | OtherError string
  | Response nat string soup_reply

record world =
  newspaper_available :: bool
  article_first :: article_reply
  article_fallback :: article_reply
  http_get :: http_reply
  base_url_of :: "string \<Rightarrow> string option"
  feed_entries :: "string \<Rightarrow> feed_entry list option"

datatype strategy = Newspaper3k | DirectHTTP | RSSFeed | Selenium | Playwright

section \<open>The fetch strategies\<close>

definition fetch_with_newspaper3k :: "bool \<Rightarrow> article_reply \<Rightarrow> string \<Rightarrow> fetch_result" where
  "fetch_with_newspaper3k available reply u =
     (if \<not> available then failure ''newspaper3k not installed''
      else (case reply of
          ArticleRaises \<Rightarrow> failure ''newspaper3k failed to extract content''
        | ArticleParsed article_title article_text \<Rightarrow>
            if article_text \<noteq> [] \<and> 50 < length (strip article_text)
            then fetched (if article_title \<noteq> [] then article_title else ''No title found'')
                   (strip article_text) u ''newspaper3k''
            else failure ''newspaper3k failed to extract content''))"

definition rss_paths :: "string list" where
  "rss_paths = [''/feed'', ''/rss'', ''/feeds/all.rss'', ''/rss.xml'', ''/feed.xml'']"

text \<open>\<^verbatim>\<open>entry.get(key, default)\<close> and \<^verbatim>\<open>a or b\<close> on strings.\<close>

definition get_or :: "string option \<Rightarrow> string \<Rightarrow> string" where
  "get_or v d = (case v of None \<Rightarrow> d | Some s \<Rightarrow> s)"

definition str_or :: "string \<Rightarrow> string \<Rightarrow> string" where
  "str_or a b = (if a \<noteq> [] then a else b)"

definition entry_summary :: "feed_entry \<Rightarrow> string" where
  "entry_summary e = str_or (get_or (summary e) []) (get_or (description e) [])"

text \<open>The first of the entries whose link contains the URL or is contained in it.\<close>

fun rss_find_entry :: "string \<Rightarrow> feed_entry list \<Rightarrow> fetch_result option" where
  "rss_find_entry u [] = None"
| "rss_find_entry u (e # es) =
     (if sublist u (get_or (link e) []) \<or> sublist (get_or (link e) []) u
      then Some (fetched (get_or (entry_title e) ''No title'') (entry_summary e) u ''rss_feed'')
      else rss_find_entry u es)"

fun rss_try_paths :: "world \<Rightarrow> string \<Rightarrow> string \<Rightarrow> string list \<Rightarrow> fetch_result option" where
  "rss_try_paths w u base [] = None"
| "rss_try_paths w u base (path # paths) =
     (case feed_entries w (base @ path) of
        None \<Rightarrow> rss_try_paths w u base paths
      | Some entries \<Rightarrow>
          (case rss_find_entry u (take 10 entries) of
             Some r \<Rightarrow> Some r
           | None \<Rightarrow> rss_try_paths w u base paths))"

definition try_rss_feed :: "world \<Rightarrow> string \<Rightarrow> fetch_result" where
  "try_rss_feed w u =
     (case base_url_of w u of
        None \<Rightarrow> failure ''RSS feed not found or doesn't contain article''
      | Some base \<Rightarrow>
          (case rss_try_paths w u base rss_paths of
             Some r \<Rightarrow> r
           | None \<Rightarrow> failure ''RSS feed not found or doesn't contain article''))"

section \<open>Extraction from the page\<close>

definition title_selectors :: "string list" where
  "title_selectors = [''og:title'', ''twitter:title'', ''h1'', ''title'']"

text \<open>
  The title loop: an element that is found overwrites the title with its \<^verbatim>\<open>content\<close>
  attribute or its text, and the loop stops at the first one that is not blank.
\<close>

fun extract_title :: "page \<Rightarrow> string list \<Rightarrow> string \<Rightarrow> string" where
  "extract_title p [] title_text = title_text"
| "extract_title p (sel # sels) title_text =
     (case find_title p sel of
        None \<Rightarrow> extract_title p sels title_text
      | Some (attr, element_text) \<Rightarrow>
          (let t = str_or (get_or attr []) element_text
           in if t \<noteq> [] \<and> strip t \<noteq> [] then strip t else extract_title p sels t))"

definition content_selectors :: "string list" where
  "content_selectors =
     [''article'', ''[role=\"article\"]'', ''.article-content'', ''.article-body'',
      ''.post-content'', ''.story-body'', ''.content-body'', ''.entry-content'',
      ''.post-body'', ''.article-text'', ''.article-main'', ''.story-content'',
      ''.article-wrapper'', ''.content-wrapper'', ''[class*=\"article\"]'',
      ''[class*=\"story\"]'', ''[class*=\"content\"]'', ''[class*=\"post\"]'',
      ''[class*=\"entry\"]'', ''main'', ''.main-content'', ''#main-content'',
      ''#article-content'', ''#story-content'', ''[id*=\"article\"]'',
      ''[id*=\"content\"]'', ''[id*=\"story\"]'']"

text \<open>
  The selector loop: each matching selector overwrites the content, and the loop stops
  at the first text longer than 150 characters. A selector that raises is skipped.
\<close>

fun select_content :: "page \<Rightarrow> string list \<Rightarrow> string option \<Rightarrow> string option" where
  "select_content p [] article_content = article_content"
| "select_content p (sel # sels) article_content =
     (case select_one p sel of
        SelectRaises \<Rightarrow> select_content p sels article_content
      | NoMatch \<Rightarrow> select_content p sels article_content
      | Matched t \<Rightarrow> if 150 < length t then Some t else select_content p sels (Some t))"

text \<open>\<^verbatim>\<open>not article_content or len(article_content) < n\<close>\<close>

definition lacking :: "nat \<Rightarrow> string option \<Rightarrow> bool" where
  "lacking n article_content =
     (case article_content of None \<Rightarrow> True | Some c \<Rightarrow> c = [] \<or> length c < n)"

definition paragraph_stage :: "page \<Rightarrow> string option \<Rightarrow> string option" where
  "paragraph_stage p article_content =
     (if lacking 150 article_content
      then (let para_texts = filter (\<lambda>t. t \<noteq> [] \<and> 20 < length t) (paragraphs p)
            in if paragraphs p \<noteq> [] \<and> para_texts \<noteq> []
               then Some (join [newline] para_texts) else article_content)
      else article_content)"

text \<open>\<^verbatim>\<open>max(texts, key=len)\<close>: the first of the longest texts.\<close>

fun longest :: "string \<Rightarrow> string list \<Rightarrow> string" where
  "longest best [] = best"
| "longest best (t # ts) = (if length best < length t then longest t ts else longest best ts)"

definition div_stage :: "page \<Rightarrow> string option \<Rightarrow> string option" where
  "div_stage p article_content =
     (if lacking 100 article_content
      then (case filter (\<lambda>t. 100 < length t) (content_divs p) of
              [] \<Rightarrow> article_content
            | t # ts \<Rightarrow> Some (longest t ts))
      else article_content)"

definition body_stage :: "page \<Rightarrow> string option \<Rightarrow> string option" where
  "body_stage p article_content =
     (if lacking 80 article_content
      then (case body_text p of None \<Rightarrow> article_content | Some b \<Rightarrow> Some b)
      else article_content)"

definition extract_content :: "page \<Rightarrow> string option" where
  "extract_content p =
     body_stage p (div_stage p (paragraph_stage p (select_content p content_selectors None)))"

section \<open>Cleaning the extracted text\<close>

text \<open>
  The cleanup of a text of at least 80 characters: the stripped lines longer than 5
  characters, then the loop that keeps a line longer than 8 characters unless it is
  all upper case and shorter than 30, then the first 200 lines joined again.
\<close>

definition stripped_lines :: "nat \<Rightarrow> string \<Rightarrow> string list" where
  "stripped_lines n article_content =
     map strip (filter (\<lambda>line. strip line \<noteq> [] \<and> n < length (strip line))
       (split_on newline article_content))"

fun filter_lines :: "string list \<Rightarrow> string list \<Rightarrow> string list" where
  "filter_lines [] filtered_lines = filtered_lines"
| "filter_lines (line # lines) filtered_lines =
     (if 8 < length line \<and> \<not> (isupper line \<and> length line < 30)
      then filter_lines lines (filtered_lines @ [line])
      else filter_lines lines filtered_lines)"

definition clean_content :: "string \<Rightarrow> string" where
  "clean_content article_content =
     join [newline] (take 200 (filter_lines (stripped_lines 5 article_content) []))"

text \<open>The cleanup of a short text (50 to 79 characters) that is returned as partial.\<close>

definition clean_partial :: "string \<Rightarrow> string" where
  "clean_partial article_content = join [newline] (take 100 (stripped_lines 10 article_content))"

section \<open>The fetch chain\<close>

text \<open>
  The fallback loop over the list of (name, function) pairs: the first result that
  reports success and passes the caller's test is returned. The second component lists
  the strategies that were called, in order.
\<close>

definition fallback_methods :: "world \<Rightarrow> (strategy \<times> (string \<Rightarrow> fetch_result)) list" where
  "fallback_methods w =
     [(Newspaper3k, fetch_with_newspaper3k (newspaper_available w) (article_fallback w)),
      (RSSFeed, try_rss_feed w)]"

fun try_fallbacks ::
  "(fetch_result \<Rightarrow> bool) \<Rightarrow> string \<Rightarrow> (strategy \<times> (string \<Rightarrow> fetch_result)) list
     \<Rightarrow> fetch_result option \<times> strategy list" where
  "try_fallbacks accept u [] = (None, [])"
| "try_fallbacks accept u ((name, method_func) # rest) =
     (let result = method_func u
      in if success result \<and> accept result then (Some result, [name])
         else (case try_fallbacks accept u rest of (r, called) \<Rightarrow> (r, name # called)))"

definition accept_any :: "fetch_result \<Rightarrow> bool" where
  "accept_any result = True"

definition accept_over_50 :: "fetch_result \<Rightarrow> bool" where
  "accept_over_50 result = (get_content result \<noteq> [] \<and> 50 < length (get_content result))"

definition run_fallbacks ::
  "world \<Rightarrow> string \<Rightarrow> bool \<Rightarrow> (fetch_result \<Rightarrow> bool) \<Rightarrow> fetch_result option \<times> strategy list" where
  "run_fallbacks w u use_fallbacks accept =
     (if use_fallbacks then try_fallbacks accept u (fallback_methods w) else (None, []))"

text \<open>What is returned when no fallback was accepted, with the calls made so far.\<close>

definition or_else ::
  "strategy list \<Rightarrow> fetch_result option \<times> strategy list \<Rightarrow> fetch_result option
     \<Rightarrow> fetch_result option \<times> strategy list" where
  "or_else called fallback otherwise =
     (case fallback of
        (Some r, later) \<Rightarrow> (Some r, called @ later)
      | (None, later) \<Rightarrow> (otherwise, called @ later))"

definition error_401 :: "string \<Rightarrow> fetch_result" where
  "error_401 u = (failure
       ''401 Forbidden: This website requires authentication or blocks automated access.'')
     \<lparr>url := Some u, suggestion := Some
       ''Options: 1) Use browser automation (Selenium/Playwright), 2) Try newspaper3k library, 3) Check RSS feed, 4) Copy article content manually.''\<rparr>"

definition error_403 :: "string \<Rightarrow> fetch_result" where
  "error_403 u = (failure
       ''403 Forbidden: Access denied. This website may block automated requests.'')
     \<lparr>url := Some u, suggestion := Some
       ''This site blocks automated access. Options: 1) Use browser automation (Selenium/Playwright), 2) Try newspaper3k library, 3) Check for RSS feed, 4) Copy article content manually.''\<rparr>"

definition error_404 :: "string \<Rightarrow> fetch_result" where
  "error_404 u = (failure
       ''404 Not Found: The article URL doesn't exist or has been removed.'')
     \<lparr>url := Some u\<rparr>"

definition error_http :: "string \<Rightarrow> nat \<Rightarrow> string \<Rightarrow> fetch_result" where
  "error_http u code reason = (failure (''HTTP Error '' @ show_nat code @ '': '' @ reason))
     \<lparr>url := Some u, status_code := Some code\<rparr>"

definition error_other :: "string \<Rightarrow> string \<Rightarrow> fetch_result" where
  "error_other u msg = (failure (''Error fetching article: '' @ msg))\<lparr>url := Some u\<rparr>"

definition error_insufficient :: "string \<Rightarrow> fetch_result" where
  "error_insufficient u = (failure
       ''Could not extract sufficient content from the article. The page structure may not be supported.'')
     \<lparr>url := Some u, suggestion := Some
       ''Try copying the article content manually, use browser automation (Selenium/Playwright), or use a different news source.''\<rparr>"

definition extracted :: "string \<Rightarrow> string \<Rightarrow> string \<Rightarrow> string \<Rightarrow> fetch_result" where
  "extracted t c u m = (fetched t c u m)\<lparr>content_length := Some (length c)\<rparr>"

text \<open>
  The part of the chain that runs on a parsed page. Falling off the end of the
  function (cleaned text below 50 characters, no fallback accepted) returns
  \<^verbatim>\<open>None\<close>.
\<close>

definition fetch_from_page ::
  "world \<Rightarrow> string \<Rightarrow> bool \<Rightarrow> strategy list \<Rightarrow> page \<Rightarrow> fetch_result option \<times> strategy list" where
  "fetch_from_page w u use_fallbacks called p =
     (let title_text = extract_title p title_selectors ''No title found'';
          article_content = extract_content p
      in if lacking 80 article_content
         then or_else called (run_fallbacks w u use_fallbacks accept_over_50)
                (if article_content \<noteq> None \<and> 50 \<le> length (get_or article_content [])
                 then Some ((extracted title_text (clean_partial (get_or article_content [])) u
                        ''requests (partial extraction)'')
                      \<lparr>warning := Some
                        ''Content may be incomplete - consider manual paste for full article''\<rparr>)
                 else Some (error_insufficient u))
         else (let cleaned = clean_content (get_or article_content [])
               in if 80 \<le> length cleaned
                  then (Some (extracted title_text cleaned u ''requests''), called)
                  else or_else called (run_fallbacks w u use_fallbacks accept_over_50)
                         (if cleaned \<noteq> [] \<and> 50 \<le> length cleaned
                          then Some ((extracted title_text cleaned u ''requests (partial)'')
                                 \<lparr>warning := Some ''Content may be incomplete''\<rparr>)
                          else None)))"

text \<open>
  \<^verbatim>\<open>fetch_article_content(url, use_fallbacks)\<close>: the result (\<open>None\<close> for Python's
  \<^verbatim>\<open>None\<close>) and the strategies called, in order.
\<close>

definition fetch_article_content ::
  "world \<Rightarrow> string \<Rightarrow> bool \<Rightarrow> fetch_result option \<times> strategy list" where
  "fetch_article_content w u use_fallbacks =
     (let newspaper_result = fetch_with_newspaper3k (newspaper_available w) (article_first w) u
      in if use_fallbacks \<and> success newspaper_result \<and> 100 < length (get_content newspaper_result)
         then (Some newspaper_result, [Newspaper3k])
         else
           (let called = (if use_fallbacks then [Newspaper3k] else []) @ [DirectHTTP]
            in case http_get w of
                 Timeout \<Rightarrow>
                   (Some ((failure ''Request timed out. The website may be slow or unreachable.'')
                      \<lparr>url := Some u\<rparr>), called)
               | ConnectionError \<Rightarrow>
                   (Some ((failure ''Connection error. Please check your internet connection.'')
                      \<lparr>url := Some u\<rparr>), called)
               | OtherError msg \<Rightarrow> (Some (error_other u msg), called)
               | Response code reason doc \<Rightarrow>
                   if code = 401
                   then or_else called (run_fallbacks w u use_fallbacks accept_any)
                          (Some (error_401 u))
                   else if code = 403
                   then or_else called (run_fallbacks w u use_fallbacks accept_any)
                          (Some (error_403 u))
                   else if code = 404 then (Some (error_404 u), called)
                   else if 400 \<le> code \<and> code < 600 then (Some (error_http u code reason), called)
                   else (case doc of
                           SoupRaises msg \<Rightarrow> (Some (error_other u msg), called)
                         | Soup p \<Rightarrow> fetch_from_page w u use_fallbacks called p)))"

section \<open>Finding related articles\<close>

text \<open>
  A candidate, as \<^verbatim>\<open>find_related_articles\<close> builds it. The key \<^verbatim>\<open>"published"\<close> is
  present only on candidates from a feed.
\<close>

record related_article =
  article_url :: string
  article_title :: string
  article_summary :: string
  relevance_score :: int
  article_published :: "string option"
  source :: string

text \<open>An anchor of the article's page: its \<^verbatim>\<open>href\<close> attribute and its stripped text.\<close>

record anchor =
  href :: "string option"
  anchor_text :: string

text \<open>
  What the article's site answers while related articles are looked for: the origin
  \<^verbatim>\<open>urlparse\<close> gives (\<open>None\<close> when it raises), the entries of each feed
  (\<open>None\<close> when parsing raises), the reply to the request for the page with the
  anchors each selector matches (\<open>None\<close> when the query raises), and \<^verbatim>\<open>urljoin\<close>.
\<close>

datatype page_reply = GetRaises | GetResponse nat "string \<Rightarrow> anchor list option"

record site =
  origin_of :: "string \<Rightarrow> string option"
  feeds :: "string \<Rightarrow> feed_entry list option"
  page_request :: page_reply
  urljoin :: "string \<Rightarrow> string \<Rightarrow> string option"

text \<open>
  A Python set of strings is kept as a list without duplicates. The order in which
  CPython iterates a set depends on the hashes of its elements: \<open>order\<close> stands for it,
  and nothing is assumed about it.
\<close>

type_synonym set_order = "string list \<Rightarrow> string list"

definition union_set :: "string list \<Rightarrow> string list \<Rightarrow> string list" where
  "union_set a b = remdups (a @ b)"

definition intersection :: "string list \<Rightarrow> string list \<Rightarrow> string list" where
  "intersection a b = filter (\<lambda>x. x \<in> set b) (remdups a)"

definition difference :: "string list \<Rightarrow> string list \<Rightarrow> string list" where
  "difference a b = filter (\<lambda>x. x \<notin> set b) (remdups a)"

definition extract_keywords :: "set_order \<Rightarrow> string \<Rightarrow> string \<Rightarrow> string list" where
  "extract_keywords order current_title current_content =
     (let title_words = findall_words 4 (lower current_title);
          content_words = findall_words 5 (take 500 (lower current_content))
      in take 10 (order (union_set title_words content_words)))"

definition common_topic_terms :: "string list" where
  "common_topic_terms =
     [''india'', ''modi'', ''putin'', ''russia'', ''diplomatic'', ''visit'', ''policy'']"

text \<open>The score of a feed entry: 1 for each keyword in its text, 2 for each topic term
  that is in its text and in the current article.\<close>

definition entry_relevance :: "string list \<Rightarrow> string \<Rightarrow> string \<Rightarrow> int" where
  "entry_relevance keyword_list current_content entry_text =
     (let by_keywords =
            fold (\<lambda>keyword score. if sublist keyword entry_text then score + 1 else score)
              keyword_list 0
      in fold (\<lambda>topic score.
                 if sublist topic entry_text \<and> sublist topic (lower current_content)
                 then score + 2 else score)
           common_topic_terms by_keywords)"

definition rss_candidate :: "feed_entry \<Rightarrow> int \<Rightarrow> related_article" where
  "rss_candidate e score =
     \<lparr>article_url = get_or (link e) [], article_title = get_or (entry_title e) ''No title'',
      article_summary = entry_summary e, relevance_score = score,
      article_published = Some (get_or (published e) []), source = ''rss_feed''\<rparr>"

text \<open>The loop over the entries of one feed; it stops when the list is full.\<close>

fun scan_entries ::
  "string \<Rightarrow> string \<Rightarrow> string list \<Rightarrow> int \<Rightarrow> feed_entry list \<Rightarrow> related_article list
     \<Rightarrow> related_article list" where
  "scan_entries u current_content keyword_list max_articles [] related_articles = related_articles"
| "scan_entries u current_content keyword_list max_articles (e # es) related_articles =
     (let entry_url = get_or (link e) [];
          entry_text = lower (get_or (entry_title e) []) @ '' '' @ lower (entry_summary e)
      in if entry_url = u \<or> sublist u entry_url
         then scan_entries u current_content keyword_list max_articles es related_articles
         else if 2 \<le> entry_relevance keyword_list current_content entry_text
         then (let appended = related_articles @
                     [rss_candidate e (entry_relevance keyword_list current_content entry_text)]
               in if max_articles \<le> int (length appended) then appended
                  else scan_entries u current_content keyword_list max_articles es appended)
         else scan_entries u current_content keyword_list max_articles es related_articles)"

text \<open>The loop over the feed paths: a feed that raises is skipped, without the test
  whether the list is full.\<close>

fun scan_feeds ::
  "site \<Rightarrow> string \<Rightarrow> string \<Rightarrow> string \<Rightarrow> string list \<Rightarrow> int \<Rightarrow> string list
     \<Rightarrow> related_article list \<Rightarrow> related_article list" where
  "scan_feeds w u base current_content keyword_list max_articles [] related_articles =
     related_articles"
| "scan_feeds w u base current_content keyword_list max_articles (path # paths) related_articles =
     (case feeds w (base @ path) of
        None \<Rightarrow> scan_feeds w u base current_content keyword_list max_articles paths related_articles
      | Some entries \<Rightarrow>
          (let found = scan_entries u current_content keyword_list max_articles
                         (take 20 entries) related_articles
           in if max_articles \<le> int (length found) then found
              else scan_feeds w u base current_content keyword_list max_articles paths found))"

definition related_selectors :: "string list" where
  "related_selectors =
     [''a[href*=\"related\"]'', ''.related-articles a'', ''.more-articles a'',
      ''.similar-articles a'', ''[class*=\"related\"] a'', ''[class*=\"similar\"] a'']"

definition link_relevance :: "string list \<Rightarrow> string \<Rightarrow> int" where
  "link_relevance keyword_list link_title =
     int (length (filter (\<lambda>kw. sublist kw (lower link_title)) keyword_list))"

definition link_candidate :: "string \<Rightarrow> string \<Rightarrow> int \<Rightarrow> related_article" where
  "link_candidate target link_title relevance =
     \<lparr>article_url = target, article_title = link_title, article_summary = [],
      relevance_score = relevance, article_published = None, source = ''page_links''\<rparr>"

text \<open>
  The loop over the anchors of one selector. The second component is \<open>True\<close> when
  \<^verbatim>\<open>urljoin\<close> raised: the candidates appended before stay in the list.
\<close>

fun scan_links ::
  "site \<Rightarrow> string \<Rightarrow> string \<Rightarrow> string list \<Rightarrow> int \<Rightarrow> anchor list \<Rightarrow> related_article list
     \<Rightarrow> related_article list \<times> bool" where
  "scan_links w u base keyword_list max_articles [] related_articles = (related_articles, False)"
| "scan_links w u base keyword_list max_articles (a # as) related_articles =
     (if get_or (href a) [] = []
      then scan_links w u base keyword_list max_articles as related_articles
      else (case (if prefix ''http'' (get_or (href a) []) then Some (get_or (href a) [])
                  else urljoin w base (get_or (href a) [])) of
              None \<Rightarrow> (related_articles, True)
            | Some target \<Rightarrow>
                if target \<noteq> u \<and> sublist base target \<and> anchor_text a \<noteq> []
                   \<and> 10 < length (anchor_text a) \<and> 1 \<le> link_relevance keyword_list (anchor_text a)
                then (let appended = related_articles @
                            [link_candidate target (anchor_text a)
                               (link_relevance keyword_list (anchor_text a))]
                      in if max_articles \<le> int (length appended) then (appended, False)
                         else scan_links w u base keyword_list max_articles as appended)
                else scan_links w u base keyword_list max_articles as related_articles))"

fun scan_selectors ::
  "site \<Rightarrow> (string \<Rightarrow> anchor list option) \<Rightarrow> string \<Rightarrow> string \<Rightarrow> string list \<Rightarrow> int
     \<Rightarrow> string list \<Rightarrow> related_article list \<Rightarrow> related_article list" where
  "scan_selectors w select u base keyword_list max_articles [] related_articles = related_articles"
| "scan_selectors w select u base keyword_list max_articles (selector # selectors) related_articles =
     (case select selector of
        None \<Rightarrow> related_articles
      | Some links \<Rightarrow>
          (case scan_links w u base keyword_list max_articles (take 10 links) related_articles of
             (found, raised) \<Rightarrow>
               if raised \<or> max_articles \<le> int (length found) then found
               else scan_selectors w select u base keyword_list max_articles selectors found))"

definition scan_page ::
  "site \<Rightarrow> string \<Rightarrow> string \<Rightarrow> string list \<Rightarrow> int \<Rightarrow> related_article list
     \<Rightarrow> related_article list" where
  "scan_page w u base keyword_list max_articles related_articles =
     (case page_request w of
        GetRaises \<Rightarrow> related_articles
      | GetResponse code select \<Rightarrow>
          if code = 200
          then scan_selectors w select u base keyword_list max_articles related_selectors
                 related_articles
          else related_articles)"

text \<open>
  \<^verbatim>\<open>find_related_articles(url, current_title, current_content, max_articles)\<close>: the
  candidates of the feeds, then those of the page, sorted by descending score (the sort
  is stable) and cut to \<^verbatim>\<open>[:max_articles]\<close>.
\<close>

definition find_related_articles ::
  "set_order \<Rightarrow> site \<Rightarrow> string \<Rightarrow> string \<Rightarrow> string \<Rightarrow> int \<Rightarrow> related_article list" where
  "find_related_articles order w u current_title current_content max_articles =
     (case origin_of w u of
        None \<Rightarrow> []
      | Some base \<Rightarrow>
          (let keyword_list = extract_keywords order current_title current_content;
               from_feeds = scan_feeds w u base current_content keyword_list max_articles
                              rss_paths [];
               related_articles = scan_page w u base keyword_list max_articles from_feeds
           in slice_to max_articles
                (sort_key (\<lambda>a. - relevance_score a) related_articles)))"

section \<open>Comparing with the related articles\<close>

record current_article =
  current_title :: "string option"
  current_content :: "string option"

record comparison =
  common_topics :: "string list"
  topics_in_related_not_in_current :: "string list"
  topics_in_current_not_in_related :: "string list"
  information_in_related_not_in_current :: "string list option"

record article_analysis =
  analysis_url :: string
  analysis_title :: string
  analysis_relevance_score :: int
  analysis_summary :: string
  analysis_comparison :: comparison
  full_content_available :: bool
  analysis_content_length :: "nat option"

record related_analysis =
  related_articles_found :: bool
  message :: "string option"
  total_found :: "nat option"
  articles :: "article_analysis list option"

text \<open>\<^verbatim>\<open>[s.strip() for s in text.split('.') if len(s.strip()) > 50]\<close>\<close>

definition sentences :: "string \<Rightarrow> string list" where
  "sentences text =
     map strip (filter (\<lambda>s. 50 < length (strip s)) (split_on (CHR ''.'') text))"

definition important_keywords :: "string list" where
  "important_keywords =
     [''policy'', ''security'', ''impact'', ''citizen'', ''government'', ''cost'', ''benefit'']"

text \<open>The loop that collects the sentences only the related article has; it stops at
  three.\<close>

fun collect_unique :: "string list \<Rightarrow> string list \<Rightarrow> string list \<Rightarrow> string list" where
  "collect_unique current_sentences [] unique_info = unique_info"
| "collect_unique current_sentences (rel_sent # rest) unique_info =
     (if \<not> list_ex (\<lambda>curr_sent. sublist (take 50 rel_sent) curr_sent) current_sentences
         \<and> list_ex (\<lambda>kw. sublist kw rel_sent) important_keywords
      then (let appended = unique_info @ [take 150 rel_sent]
            in if 3 \<le> length appended then appended
               else collect_unique current_sentences rest appended)
      else collect_unique current_sentences rest unique_info)"

definition compare_topics :: "set_order \<Rightarrow> string \<Rightarrow> string \<Rightarrow> comparison" where
  "compare_topics order content_lower summary_lower =
     (let current_topics = remdups (findall_words 5 (take 1000 content_lower));
          article_topics = remdups (findall_words 5 (take 1000 summary_lower))
      in \<lparr>common_topics = take 5 (order (intersection current_topics article_topics)),
          topics_in_related_not_in_current =
            take 5 (order (difference article_topics current_topics)),
          topics_in_current_not_in_related =
            take 5 (order (difference current_topics article_topics)),
          information_in_related_not_in_current = None\<rparr>)"

text \<open>
  The body of the loop over the candidates: the topic comparison on the summary, then
  the fetch of the candidate without fallbacks. A fetch that returns \<^verbatim>\<open>None\<close> makes
  \<^verbatim>\<open>fetched.get\<close> raise, which the handler turns into "not available".
\<close>

definition analyze_article ::
  "set_order \<Rightarrow> world \<Rightarrow> string \<Rightarrow> related_article \<Rightarrow> article_analysis" where
  "analyze_article order w content_lower article =
     (let article_analysis =
            \<lparr>analysis_url = article_url article, analysis_title = article_title article,
             analysis_relevance_score = relevance_score article,
             analysis_summary = take 200 (article_summary article),
             analysis_comparison =
               compare_topics order content_lower (lower (article_summary article)),
             full_content_available = False, analysis_content_length = None\<rparr>
      in case fst (fetch_article_content w (article_url article) False) of
           None \<Rightarrow> article_analysis
         | Some result \<Rightarrow>
             if success result
             then article_analysis
                    \<lparr>analysis_comparison := (analysis_comparison article_analysis)
                       \<lparr>information_in_related_not_in_current :=
                          Some (collect_unique (sentences content_lower)
                                  (take 20 (sentences (lower (get_content result)))) [])\<rparr>,
                     full_content_available := True,
                     analysis_content_length := Some (length (get_content result))\<rparr>
             else article_analysis)"

text \<open>The loop over the candidates; \<open>worlds i\<close> answers the fetch of candidate \<open>i\<close>.\<close>

fun analyze_loop ::
  "set_order \<Rightarrow> (nat \<Rightarrow> world) \<Rightarrow> string \<Rightarrow> nat \<Rightarrow> related_article list
     \<Rightarrow> article_analysis list \<Rightarrow> article_analysis list" where
  "analyze_loop order worlds content_lower i [] analysed = analysed"
| "analyze_loop order worlds content_lower i (article # rest) analysed =
     analyze_loop order worlds content_lower (Suc i) rest
       (analysed @ [analyze_article order (worlds i) content_lower article])"

definition analyze_related_articles ::
  "set_order \<Rightarrow> (nat \<Rightarrow> world) \<Rightarrow> current_article \<Rightarrow> related_article list \<Rightarrow> related_analysis" where
  "analyze_related_articles order worlds current related_articles =
     (if related_articles = []
      then \<lparr>related_articles_found = False,
            message = Some ''No related articles found on the same website'',
            total_found = None, articles = None\<rparr>
      else \<lparr>related_articles_found = True, message = None,
            total_found = Some (length related_articles),
            articles = Some (analyze_loop order worlds
                               (lower (get_or (current_content current) [])) 0
                               related_articles [])\<rparr>)"

section \<open>The cleanup as the specification words it\<close>

text \<open>
  "Split into lines, drop lines of 5 or fewer characters, drop navigation-like lines
  (all-caps strings shorter than 30 characters), cap the output at 200 lines."
\<close>

definition spec_clean_content :: "string \<Rightarrow> string" where
  "spec_clean_content article_content =
     join [newline] (take 200
       (filter (\<lambda>line. \<not> length line \<le> 5 \<and> \<not> (isupper line \<and> length line < 30))
          (split_on newline article_content)))"

section \<open>Concrete worlds\<close>

text \<open>A feed whose only entry links to the article and has no summary.\<close>

definition feed_with_empty_summary :: "string \<Rightarrow> feed_entry list option" where
  "feed_with_empty_summary feed_url =
     (if feed_url = ''http://x.org/feed''
      then Some [\<lparr>link = Some ''http://x.org/a'', entry_title = Some ''A'', summary = None,
                  description = None, published = None\<rparr>]
      else None)"

text \<open>The origin answers 403, newspaper3k is not installed, the feed lists the article.\<close>

definition world_blocked :: world where
  "world_blocked =
     \<lparr>newspaper_available = False, article_first = ArticleRaises,
      article_fallback = ArticleRaises, http_get = Response 403 ''Forbidden'' (SoupRaises []),
      base_url_of = (\<lambda>u. Some ''http://x.org''), feed_entries = feed_with_empty_summary\<rparr>"

text \<open>The origin answers 403, newspaper3k fails twice, the site has no feed.\<close>

definition world_all_fail :: world where
  "world_all_fail =
     \<lparr>newspaper_available = True, article_first = ArticleRaises,
      article_fallback = ArticleRaises, http_get = Response 403 ''Forbidden'' (SoupRaises []),
      base_url_of = (\<lambda>u. Some ''http://x.org''), feed_entries = (\<lambda>f. None)\<rparr>"

text \<open>The origin answers 403 and newspaper3k extracts the same 60 characters each time.\<close>

definition world_short_article :: world where
  "world_short_article =
     \<lparr>newspaper_available = True,
      article_first = ArticleParsed ''T'' (replicate 60 (CHR ''a'')),
      article_fallback = ArticleParsed ''T'' (replicate 60 (CHR ''a'')),
      http_get = Response 403 ''Forbidden'' (SoupRaises []),
      base_url_of = (\<lambda>u. Some ''http://x.org''), feed_entries = (\<lambda>f. None)\<rparr>"

text \<open>newspaper3k extracts 101 characters at the first attempt.\<close>

definition world_long_article :: world where
  "world_long_article =
     \<lparr>newspaper_available = True,
      article_first = ArticleParsed ''T'' (replicate 101 (CHR ''a'')),
      article_fallback = ArticleRaises, http_get = Timeout,
      base_url_of = (\<lambda>u. None), feed_entries = (\<lambda>f. None)\<rparr>"

text \<open>The origin serves a page whose \<^verbatim>\<open>article\<close> element holds two sentences.\<close>

definition related_text :: string where
  "related_text = ''The new budget policy raises the cost of imported goods for every household. Officials said the details will follow next week in parliament''"

definition page_with_article :: page where
  "page_with_article =
     \<lparr>find_title = (\<lambda>selector. if selector = ''h1'' then Some (None, ''Budget'') else None),
      select_one = (\<lambda>selector. if selector = ''article'' then Matched related_text else NoMatch),
      paragraphs = [], content_divs = [], body_text = None\<rparr>"

definition world_with_article :: world where
  "world_with_article =
     \<lparr>newspaper_available = False, article_first = ArticleRaises,
      article_fallback = ArticleRaises, http_get = Response 200 ''OK'' (Soup page_with_article),
      base_url_of = (\<lambda>u. None), feed_entries = (\<lambda>f. None)\<rparr>"

text \<open>A current article, one candidate, and the analysis the comparator gives it.\<close>

definition budget_article :: current_article where
  "budget_article =
     \<lparr>current_title = Some ''Budget'', current_content = Some ''Budget talks continue''\<rparr>"

definition budget_candidate :: related_article where
  "budget_candidate =
     \<lparr>article_url = ''http://x.org/b'', article_title = ''Budget policy'',
      article_summary = ''Budget policy and household costs'', relevance_score = 3,
      article_published = None, source = ''rss_feed''\<rparr>"

definition budget_analysis :: article_analysis where
  "budget_analysis =
     \<lparr>analysis_url = ''http://x.org/b'', analysis_title = ''Budget policy'',
      analysis_relevance_score = 3, analysis_summary = ''Budget policy and household costs'',
      analysis_comparison =
        \<lparr>common_topics = [''budget''],
         topics_in_related_not_in_current = [''policy'', ''household'', ''costs''],
         topics_in_current_not_in_related = [''talks'', ''continue''],
         information_in_related_not_in_current =
           Some [''the new budget policy raises the cost of imported goods for every household'']\<rparr>,
      full_content_available = True, analysis_content_length = Some 139\<rparr>"

text \<open>A site whose feeds are empty and whose page links, in its block of class
  \<^verbatim>\<open>more-articles\<close>, to another article of the site.\<close>

definition site_with_related_link :: site where
  "site_with_related_link =
     \<lparr>origin_of = (\<lambda>u. Some ''http://x.org''), feeds = (\<lambda>f. Some []),
      page_request = GetResponse 200 (\<lambda>selector.
        if selector = ''.more-articles a''
        then Some [\<lparr>href = Some ''http://x.org/b'', anchor_text = ''budget news today''\<rparr>]
        else Some []),
      urljoin = (\<lambda>base h. Some (base @ h))\<rparr>"

text \<open>The same site, whose block links to the article itself with a tracking
  parameter.\<close>

definition site_with_alias_link :: site where
  "site_with_alias_link =
     \<lparr>origin_of = (\<lambda>u. Some ''http://x.org''), feeds = (\<lambda>f. Some []),
      page_request = GetResponse 200 (\<lambda>selector.
        if selector = ''.more-articles a''
        then Some [\<lparr>href = Some ''http://x.org/a?utm_source=home'',
                    anchor_text = ''budget news today''\<rparr>]
        else Some []),
      urljoin = (\<lambda>base h. Some (base @ h))\<rparr>"

text \<open>The origin serves a page whose body is six lines of nine characters.\<close>

definition page_with_short_lines :: page where
  "page_with_short_lines =
     \<lparr>find_title = (\<lambda>selector. None), select_one = (\<lambda>selector. NoMatch),
      paragraphs = [], content_divs = [],
      body_text = Some (join [newline] (replicate 6 (replicate 9 (CHR ''a''))))\<rparr>"

definition world_with_short_lines :: world where
  "world_with_short_lines =
     \<lparr>newspaper_available = False, article_first = ArticleRaises,
      article_fallback = ArticleRaises,
      http_get = Response 200 ''OK'' (Soup page_with_short_lines),
      base_url_of = (\<lambda>u. None), feed_entries = (\<lambda>f. None)\<rparr>"

section \<open>Properties of the fetch chain\<close>

lemma strip_replicate_a: "strip (replicate n (CHR ''a'')) = replicate n (CHR ''a'')"
  by (simp add: strip_def isspace_def code_point_def)

lemma try_fallbacks_any:
  "try_fallbacks accept_any u (fallback_methods w) =
    (if success (fetch_with_newspaper3k (newspaper_available w) (article_fallback w) u)
     then (Some (fetch_with_newspaper3k (newspaper_available w) (article_fallback w) u),
           [Newspaper3k])
     else if success (try_rss_feed w u) then (Some (try_rss_feed w u), [Newspaper3k, RSSFeed])
     else (None, [Newspaper3k, RSSFeed]))"
  by (simp add: fallback_methods_def accept_any_def Let_def)

text \<open>
  C1, at a concrete input. The claim is that a result with \<open>success = True\<close> has a
  content of at least 50 characters. When the origin answers 403 and the site's feed
  lists the article without a summary, the chain returns the feed's result as it is:
  success with the empty string as content. The two fallback loops of the
  content-too-short paths test \<^verbatim>\<open>len(content) > 50\<close>; the loops of the 401 and 403
  paths do not.
\<close>

theorem fetch_blocked_returns_empty_content:
  "fetch_article_content world_blocked ''http://x.org/a'' True =
     (Some (fetched ''A'' [] ''http://x.org/a'' ''rss_feed''),
      [Newspaper3k, DirectHTTP, Newspaper3k, RSSFeed])
   \<and> success (fetched ''A'' [] ''http://x.org/a'' ''rss_feed'')
   \<and> get_content (fetched ''A'' [] ''http://x.org/a'' ''rss_feed'') = []"
  by (simp add: fetch_article_content_def world_blocked_def fetch_with_newspaper3k_def
      failure_def get_content_def or_else_def run_fallbacks_def fallback_methods_def
      try_rss_feed_def rss_paths_def feed_with_empty_summary_def accept_any_def
      get_or_def entry_summary_def str_or_def sublist_code fetched_def Let_def)

text \<open>
  C2: with fallbacks enabled the first strategy called is newspaper3k, and when its
  result reports success with more than 100 characters of content the chain returns
  that result unchanged, having called nothing else.
\<close>

theorem newspaper_first_short_circuit:
  "(\<exists>rest. snd (fetch_article_content w u True) = Newspaper3k # rest) \<and>
   (success (fetch_with_newspaper3k (newspaper_available w) (article_first w) u) \<and>
    100 < length (get_content (fetch_with_newspaper3k (newspaper_available w) (article_first w) u))
    \<longrightarrow> fetch_article_content w u True =
         (Some (fetch_with_newspaper3k (newspaper_available w) (article_first w) u),
          [Newspaper3k]))"
  unfolding fetch_article_content_def fetch_from_page_def or_else_def
  by (simp add: Let_def split: http_reply.splits soup_reply.splits prod.splits option.splits)

text \<open>C2 at a world where newspaper3k extracts 101 characters: its result comes back,
  and the HTTP request (which would time out) is never made.\<close>

theorem newspaper_first_short_circuit_witness:
  "fetch_article_content world_long_article ''http://x.org/a'' True =
     (Some (fetched ''T'' (replicate 101 (CHR ''a'')) ''http://x.org/a'' ''newspaper3k''),
      [Newspaper3k])"
  using newspaper_first_short_circuit [of world_long_article "''http://x.org/a''"]
  by (simp add: world_long_article_def fetch_with_newspaper3k_def strip_replicate_a
      fetched_def get_content_def)

text \<open>
  C4 as stated fails: the claim has the chain try the article-extraction library and
  the feed lookup whenever the origin answers 403. Here newspaper3k extracts 60
  characters: too few for the first attempt to be accepted, enough for the fallback
  loop to return at once, so the feed lookup is never called.
\<close>

theorem feed_not_tried_after_403:
  "http_get world_short_article = Response 403 ''Forbidden'' (SoupRaises [])
   \<and> fetch_article_content world_short_article ''http://x.org/a'' True =
       (Some (fetched ''T'' (replicate 60 (CHR ''a'')) ''http://x.org/a'' ''newspaper3k''),
        [Newspaper3k, DirectHTTP, Newspaper3k])
   \<and> RSSFeed \<notin> set (snd (fetch_article_content world_short_article ''http://x.org/a'' True))"
  by (simp add: fetch_article_content_def world_short_article_def fetch_with_newspaper3k_def
      strip_replicate_a fetched_def get_content_def or_else_def run_fallbacks_def
      fallback_methods_def accept_any_def)

text \<open>
  C4, amended: when the first newspaper3k attempt is not accepted and the origin answers
  403, the chain with fallbacks calls newspaper3k again and returns its result if it
  succeeds; otherwise it calls the feed lookup and returns its result if it succeeds;
  when both fail the result is the failure whose error text contains "403".
\<close>

theorem fallbacks_after_403:
  assumes "http_get w = Response 403 reason doc"
    and "\<not> (success (fetch_with_newspaper3k (newspaper_available w) (article_first w) u) \<and>
            100 < length (get_content
                    (fetch_with_newspaper3k (newspaper_available w) (article_first w) u)))"
  shows "fetch_article_content w u True =
    (if success (fetch_with_newspaper3k (newspaper_available w) (article_fallback w) u)
     then (Some (fetch_with_newspaper3k (newspaper_available w) (article_fallback w) u),
           [Newspaper3k, DirectHTTP, Newspaper3k])
     else if success (try_rss_feed w u)
     then (Some (try_rss_feed w u), [Newspaper3k, DirectHTTP, Newspaper3k, RSSFeed])
     else (Some (error_403 u), [Newspaper3k, DirectHTTP, Newspaper3k, RSSFeed]))
    \<and> \<not> success (error_403 u)
    \<and> (\<exists>e. error (error_403 u) = Some e \<and> sublist ''403'' e)"
proof -
  have "sublist ''403'' (''403'' @ rest)" for rest :: string
    unfolding sublist_def by (rule exI[of _ "[]"], rule exI[of _ rest]) simp
  then have e: "\<exists>e. error (error_403 u) = Some e \<and> sublist ''403'' e"
    by (simp add: error_403_def failure_def)
  have s: "\<not> success (error_403 u)"
    by (simp add: error_403_def failure_def)
  from assms show ?thesis using e s
    by (simp add: fetch_article_content_def Let_def run_fallbacks_def try_fallbacks_any
        or_else_def)
qed

text \<open>C4, amended, where every strategy fails: both fallbacks are called and the 403
  failure is returned.\<close>

theorem fallbacks_after_403_witness:
  "fetch_article_content world_all_fail ''http://x.org/a'' True =
     (Some (error_403 ''http://x.org/a''), [Newspaper3k, DirectHTTP, Newspaper3k, RSSFeed])"
  using fallbacks_after_403 [of world_all_fail "''Forbidden''" "SoupRaises []" "''http://x.org/a''"]
  by (simp add: world_all_fail_def fetch_with_newspaper3k_def failure_def try_rss_feed_def
      rss_paths_def)

text \<open>
  C5: without fallbacks the only strategy called is the direct HTTP request, whatever
  the origin answers: newspaper3k, the feed lookup and the headless browsers are never
  called.
\<close>

theorem no_fallbacks_direct_only:
  "snd (fetch_article_content w u False) = [DirectHTTP]"
  unfolding fetch_article_content_def fetch_from_page_def run_fallbacks_def or_else_def
  by (simp add: Let_def split: http_reply.splits soup_reply.splits)

text \<open>C5 at the world whose origin answers 403 and whose feed lists the article.\<close>

theorem no_fallbacks_direct_only_witness:
  "fetch_article_content world_blocked ''http://x.org/a'' False =
     (Some (error_403 ''http://x.org/a''), [DirectHTTP])"
  using no_fallbacks_direct_only [of world_blocked "''http://x.org/a''"]
  by (simp add: fetch_article_content_def world_blocked_def or_else_def run_fallbacks_def)

section \<open>Properties of the cleanup\<close>

lemma filter_lines_eq:
  "filter_lines ls acc =
     acc @ filter (\<lambda>line. 8 < length line \<and> \<not> (isupper line \<and> length line < 30)) ls"
  by (induction ls arbitrary: acc) auto

lemma filter_map_strip_filter:
  "filter (\<lambda>line. 8 < length line \<and> Q line)
     (map strip (filter (\<lambda>line. strip line \<noteq> [] \<and> 5 < length (strip line)) ls)) =
   filter (\<lambda>line. 8 < length line \<and> Q line) (map strip ls)"
  by (induction ls) auto

text \<open>
  C9 as stated fails. The body below has a line of seven lower-case characters and a
  line of 80: the first is neither 5 characters or fewer nor all upper case, so the
  specified cleanup keeps it; the code drops it.
\<close>

theorem seven_character_line_dropped:
  "clean_content (''abcdefg'' @ [newline] @ replicate 80 (CHR ''a'')) = replicate 80 (CHR ''a'')
   \<and> spec_clean_content (''abcdefg'' @ [newline] @ replicate 80 (CHR ''a''))
       = ''abcdefg'' @ [newline] @ replicate 80 (CHR ''a'')"
  by code_simp

text \<open>
  C9, amended: the cleanup splits the text into lines, strips each line, keeps in order
  exactly the lines longer than 8 characters that are not all upper case and shorter
  than 30, and joins the first 200 of them.
\<close>

theorem clean_content_keeps:
  "clean_content article_content =
     join [newline] (take 200
       (filter (\<lambda>line. 8 < length line \<and> \<not> (isupper line \<and> length line < 30))
          (map strip (split_on newline article_content))))"
  unfolding clean_content_def stripped_lines_def filter_lines_eq
  by (simp add: filter_map_strip_filter)

section \<open>Properties of the related-article finder\<close>

lemma budget_keyword: "extract_keywords (\<lambda>xs. xs) ''budget'' [] = [''budget'']"
  by (simp add: extract_keywords_def findall_words_def lower_def lower_char_def
      is_upper_char_def code_point_def is_word_char_def is_lower_char_def is_digit_char_def
      union_set_def)

lemma related_link_found:
  "find_related_articles (\<lambda>xs. xs) site_with_related_link ''http://x.org/a'' ''budget'' [] 5
     = [link_candidate ''http://x.org/b'' ''budget news today'' 1]"
  by (simp add: find_related_articles_def site_with_related_link_def budget_keyword
      scan_page_def rss_paths_def related_selectors_def link_relevance_def get_or_def
      sublist_code slice_to_def lower_def lower_char_def is_upper_char_def code_point_def)

text \<open>Each loop keeps a property of the candidates, once the candidate it appends has
  it.\<close>

lemma scan_entries_inv:
  assumes "\<And>e s. 2 \<le> s \<Longrightarrow> get_or (link e) [] \<noteq> u \<Longrightarrow> \<not> sublist u (get_or (link e) [])
           \<Longrightarrow> P (rss_candidate e s)"
  shows "list_all P acc \<Longrightarrow> list_all P (scan_entries u cc kws m es acc)"
  by (induction es arbitrary: acc) (simp_all add: Let_def assms)

lemma scan_feeds_inv:
  assumes "\<And>e s. 2 \<le> s \<Longrightarrow> get_or (link e) [] \<noteq> u \<Longrightarrow> \<not> sublist u (get_or (link e) [])
           \<Longrightarrow> P (rss_candidate e s)"
  shows "list_all P acc \<Longrightarrow> list_all P (scan_feeds w u base cc kws m paths acc)"
proof (induction paths arbitrary: acc)
  case Nil
  then show ?case by simp
next
  case (Cons p ps)
  show ?case
  proof (cases "feeds w (base @ p)")
    case None
    then show ?thesis using Cons by simp
  next
    case (Some entries)
    have "list_all P (scan_entries u cc kws m (take 20 entries) acc)"
      by (rule scan_entries_inv[where P = P, OF assms Cons.prems])
    then show ?thesis using Some Cons.IH by (simp add: Let_def)
  qed
qed

lemma scan_links_inv:
  assumes "\<And>t txt r. 1 \<le> r \<Longrightarrow> t \<noteq> u \<Longrightarrow> sublist base t \<Longrightarrow> P (link_candidate t txt r)"
  shows "list_all P acc \<Longrightarrow> list_all P (fst (scan_links w u base kws m as acc))"
  by (induction as arbitrary: acc) (simp_all add: Let_def assms split: option.splits)

lemma scan_selectors_inv:
  assumes "\<And>t txt r. 1 \<le> r \<Longrightarrow> t \<noteq> u \<Longrightarrow> sublist base t \<Longrightarrow> P (link_candidate t txt r)"
  shows "list_all P acc \<Longrightarrow> list_all P (scan_selectors w sel u base kws m sels acc)"
proof (induction sels arbitrary: acc)
  case Nil
  then show ?case by simp
next
  case (Cons s ss)
  show ?case
  proof (cases "sel s")
    case None
    then show ?thesis using Cons.prems by simp
  next
    case (Some links)
    obtain found raised
      where sl: "scan_links w u base kws m (take 10 links) acc = (found, raised)"
      by (cases "scan_links w u base kws m (take 10 links) acc")
    have "list_all P (fst (scan_links w u base kws m (take 10 links) acc))"
      by (rule scan_links_inv[where P = P, OF assms Cons.prems])
    then have "list_all P found" using sl by simp
    then show ?thesis using Some sl Cons.IH by simp
  qed
qed

lemma set_slice_to: "set (slice_to n xs) \<subseteq> set xs"
  by (auto simp: slice_to_def dest: in_set_takeD)

lemma find_related_inv:
  assumes rss: "\<And>e s. 2 \<le> s \<Longrightarrow> get_or (link e) [] \<noteq> u \<Longrightarrow> \<not> sublist u (get_or (link e) [])
           \<Longrightarrow> P (rss_candidate e s)"
    and links: "\<And>t txt r. 1 \<le> r \<Longrightarrow> t \<noteq> u \<Longrightarrow> P (link_candidate t txt r)"
    and c: "c \<in> set (find_related_articles order w u title_text content_text m)"
  shows "P c"
proof (cases "origin_of w u")
  case None
  then show ?thesis using c by (simp add: find_related_articles_def)
next
  case (Some base)
  define kws where "kws = extract_keywords order title_text content_text"
  define from_feeds where "from_feeds = scan_feeds w u base content_text kws m rss_paths []"
  have f: "list_all P from_feeds"
    unfolding from_feeds_def by (rule scan_feeds_inv[where P = P, OF rss]) simp_all
  have links3: "\<And>t txt r. 1 \<le> r \<Longrightarrow> t \<noteq> u \<Longrightarrow> sublist base t \<Longrightarrow> P (link_candidate t txt r)"
    using links by blast
  have p: "list_all P (scan_page w u base kws m from_feeds)"
  proof (cases "page_request w")
    case GetRaises
    then show ?thesis using f by (simp add: scan_page_def)
  next
    case (GetResponse code select)
    have "list_all P (scan_selectors w select u base kws m related_selectors from_feeds)"
      by (rule scan_selectors_inv[where P = P, OF links3 f])
    then show ?thesis using f GetResponse by (simp add: scan_page_def)
  qed
  have "find_related_articles order w u title_text content_text m =
      slice_to m (sort_key (\<lambda>a. - relevance_score a) (scan_page w u base kws m from_feeds))"
    unfolding find_related_articles_def kws_def from_feeds_def using Some by (simp add: Let_def)
  with c have "c \<in> set (slice_to m (sort_key (\<lambda>a. - relevance_score a)
      (scan_page w u base kws m from_feeds)))"
    by simp
  then have "c \<in> set (sort_key (\<lambda>a. - relevance_score a) (scan_page w u base kws m from_feeds))"
    by (rule subsetD[OF set_slice_to])
  then have "c \<in> set (scan_page w u base kws m from_feeds)"
    by simp
  then show ?thesis using p by (simp add: list_all_iff)
qed

text \<open>
  C3 as stated fails: the claim gives every returned candidate a score of at least 2,
  whichever source it came from. The anchor loop accepts a link whose text holds one
  keyword, so a candidate from the page's links is returned with score 1.
\<close>

theorem page_link_with_score_one:
  "find_related_articles (\<lambda>xs. xs) site_with_related_link ''http://x.org/a'' ''budget'' [] 5
     = [link_candidate ''http://x.org/b'' ''budget news today'' 1]
   \<and> source (link_candidate ''http://x.org/b'' ''budget news today'' 1) = ''page_links''
   \<and> relevance_score (link_candidate ''http://x.org/b'' ''budget news today'' 1) < 2"
  by (simp add: related_link_found) (simp add: link_candidate_def)

text \<open>
  C3, amended: every returned candidate from a feed has a score of at least 2, and
  every returned candidate from the page's links has a score of at least 1.
\<close>

theorem relevance_floor_by_source:
  assumes "c \<in> set (find_related_articles order w u title_text content_text m)"
  shows "(source c = ''rss_feed'' \<and> 2 \<le> relevance_score c) \<or>
         (source c = ''page_links'' \<and> 1 \<le> relevance_score c)"
  by (rule find_related_inv[where P = "\<lambda>c. (source c = ''rss_feed'' \<and> 2 \<le> relevance_score c) \<or>
         (source c = ''page_links'' \<and> 1 \<le> relevance_score c)", OF _ _ assms])
     (simp_all add: rss_candidate_def link_candidate_def)

text \<open>C3, amended, at the candidate the site's block of links gives.\<close>

theorem relevance_floor_by_source_witness:
  "link_candidate ''http://x.org/b'' ''budget news today'' 1
     \<in> set (find_related_articles (\<lambda>xs. xs) site_with_related_link ''http://x.org/a''
              ''budget'' [] 5)
   \<and> source (link_candidate ''http://x.org/b'' ''budget news today'' 1) = ''page_links''
   \<and> 1 \<le> relevance_score (link_candidate ''http://x.org/b'' ''budget news today'' 1)"
  using relevance_floor_by_source [of "link_candidate ''http://x.org/b'' ''budget news today'' 1"
      "\<lambda>xs. xs" site_with_related_link "''http://x.org/a''" "''budget''" "[]" 5]
  by (simp add: related_link_found) (simp add: link_candidate_def)

text \<open>
  C6, at a concrete input. The claim is that no returned candidate has a URL that
  contains the article's URL. The feed loop skips an entry whose link contains it; the
  anchor loop only skips a link equal to it, so a link to the article itself with a
  tracking parameter is returned as a related article.
\<close>

theorem alias_link_returned:
  "find_related_articles (\<lambda>xs. xs) site_with_alias_link ''http://x.org/a'' ''budget'' [] 5
     = [link_candidate ''http://x.org/a?utm_source=home'' ''budget news today'' 1]
   \<and> sublist ''http://x.org/a''
        (article_url (link_candidate ''http://x.org/a?utm_source=home'' ''budget news today'' 1))"
  by (simp add: find_related_articles_def site_with_alias_link_def budget_keyword scan_page_def
      rss_paths_def related_selectors_def link_relevance_def get_or_def sublist_code
      slice_to_def lower_def lower_char_def is_upper_char_def code_point_def link_candidate_def)

section \<open>Properties of the comparator\<close>

lemma collect_unique_bound:
  "length acc < 3 \<Longrightarrow> length (collect_unique cur rs acc) \<le> 3"
  by (induction rs arbitrary: acc) (auto simp: Let_def)

lemma analyze_article_bounds:
  "length (common_topics (analysis_comparison (analyze_article order w cc a))) \<le> 5 \<and>
   length (topics_in_related_not_in_current
             (analysis_comparison (analyze_article order w cc a))) \<le> 5 \<and>
   length (topics_in_current_not_in_related
             (analysis_comparison (analyze_article order w cc a))) \<le> 5 \<and>
   (case information_in_related_not_in_current
           (analysis_comparison (analyze_article order w cc a)) of
      None \<Rightarrow> True | Some unique_info \<Rightarrow> length unique_info \<le> 3)"
  by (simp add: analyze_article_def compare_topics_def Let_def collect_unique_bound
      split: option.splits)

lemma analyze_loop_all:
  "list_all P acc \<Longrightarrow> (\<And>w a. P (analyze_article order w cc a)) \<Longrightarrow>
   list_all P (analyze_loop order worlds cc i as acc)"
  by (induction as arbitrary: i acc) simp_all

lemma analyze_loop_map:
  assumes "\<And>w a. f (analyze_article order w cc a) = g a"
  shows "map f (analyze_loop order worlds cc i as acc) = map f acc @ map g as"
  by (induction as arbitrary: i acc) (simp_all add: assms)

lemma budget_analysis_eval:
  "analyze_related_articles (\<lambda>xs. xs) (\<lambda>i. world_with_article) budget_article
     [budget_candidate]
    = \<lparr>related_articles_found = True, message = None, total_found = Some 1,
       articles = Some [budget_analysis]\<rparr>"
  by code_simp

text \<open>
  C7: for a non-empty candidate list the comparator returns a list of analyses, and in
  each of them the three topic lists have at most 5 entries and the list of unique
  sentences, when the candidate was fetched, has at most 3.
\<close>

theorem comparison_lists_bounded:
  assumes "related_articles \<noteq> []"
  shows "\<exists>analysed.
     articles (analyze_related_articles order worlds current related_articles) = Some analysed
     \<and> (\<forall>a\<in>set analysed.
          length (common_topics (analysis_comparison a)) \<le> 5 \<and>
          length (topics_in_related_not_in_current (analysis_comparison a)) \<le> 5 \<and>
          length (topics_in_current_not_in_related (analysis_comparison a)) \<le> 5 \<and>
          (case information_in_related_not_in_current (analysis_comparison a) of
             None \<Rightarrow> True | Some unique_info \<Rightarrow> length unique_info \<le> 3))"
proof -
  have "list_all (\<lambda>a. length (common_topics (analysis_comparison a)) \<le> 5 \<and>
       length (topics_in_related_not_in_current (analysis_comparison a)) \<le> 5 \<and>
       length (topics_in_current_not_in_related (analysis_comparison a)) \<le> 5 \<and>
       (case information_in_related_not_in_current (analysis_comparison a) of
         None \<Rightarrow> True | Some unique_info \<Rightarrow> length unique_info \<le> 3))
     (analyze_loop order worlds (lower (get_or (current_content current) [])) 0
        related_articles [])"
    by (rule analyze_loop_all) (simp, rule analyze_article_bounds)
  then show ?thesis using assms
    by (simp add: analyze_related_articles_def list_all_iff)
qed

text \<open>C7 at a candidate whose page was fetched: one common topic, three and two
  topics on either side, one unique sentence.\<close>

theorem comparison_lists_bounded_witness:
  "articles (analyze_related_articles (\<lambda>xs. xs) (\<lambda>i. world_with_article) budget_article
      [budget_candidate]) = Some [budget_analysis]
   \<and> length (common_topics (analysis_comparison budget_analysis)) \<le> 5
   \<and> length (topics_in_related_not_in_current (analysis_comparison budget_analysis)) \<le> 5
   \<and> length (topics_in_current_not_in_related (analysis_comparison budget_analysis)) \<le> 5
   \<and> (\<exists>unique_info.
         information_in_related_not_in_current (analysis_comparison budget_analysis)
           = Some unique_info \<and> length unique_info \<le> 3)"
  using comparison_lists_bounded [of "[budget_candidate]" "\<lambda>xs. xs" "\<lambda>i. world_with_article"
      budget_article]
  by (simp add: budget_analysis_eval) (simp add: budget_analysis_def)

text \<open>
  C8: for an empty candidate list the comparator returns the record with
  \<open>related_articles_found = False\<close> and a message, and with no list of articles.
\<close>

theorem no_candidates_message:
  "analyze_related_articles order worlds current [] =
     \<lparr>related_articles_found = False,
      message = Some ''No related articles found on the same website'',
      total_found = None, articles = None\<rparr>"
  by (simp add: analyze_related_articles_def)

text \<open>
  C10: for a non-empty candidate list, \<open>total_found\<close> is the number of candidates and
  the analyses are one per candidate, in the candidates' order, each with the
  candidate's URL, title and score unchanged and with the first 200 characters of its
  summary.
\<close>

theorem analyses_follow_candidates:
  assumes "related_articles \<noteq> []"
  shows "total_found (analyze_related_articles order worlds current related_articles)
           = Some (length related_articles)
   \<and> (\<exists>analysed.
        articles (analyze_related_articles order worlds current related_articles)
          = Some analysed
        \<and> map (\<lambda>a. (analysis_url a, analysis_title a, analysis_relevance_score a,
                     analysis_summary a)) analysed
          = map (\<lambda>c. (article_url c, article_title c, relevance_score c,
                       take 200 (article_summary c))) related_articles)"
  using assms
  by (simp add: analyze_related_articles_def
      analyze_loop_map[where g = "\<lambda>c. (article_url c, article_title c, relevance_score c,
                                       take 200 (article_summary c))"]
      analyze_article_def Let_def split: option.splits)

text \<open>C10 at one candidate: one analysis, carrying the candidate's values.\<close>

theorem analyses_follow_candidates_witness:
  "total_found (analyze_related_articles (\<lambda>xs. xs) (\<lambda>i. world_with_article) budget_article
      [budget_candidate]) = Some 1
   \<and> articles (analyze_related_articles (\<lambda>xs. xs) (\<lambda>i. world_with_article) budget_article
      [budget_candidate]) = Some [budget_analysis]
   \<and> (analysis_url budget_analysis, analysis_title budget_analysis,
       analysis_relevance_score budget_analysis, analysis_summary budget_analysis)
     = (article_url budget_candidate, article_title budget_candidate,
        relevance_score budget_candidate, take 200 (article_summary budget_candidate))"
  using analyses_follow_candidates [of "[budget_candidate]" "\<lambda>xs. xs" "\<lambda>i. world_with_article"
      budget_article]
  by (simp add: budget_analysis_eval)

section \<open>Further properties\<close>

text \<open>
  The partial extraction tests the length of the text before it drops the short lines:
  a body of 59 characters in lines of nine comes back as success with empty content.
\<close>

lemma partial_extraction_empty_content:
  "fetch_article_content world_with_short_lines ''http://x.org/a'' False =
     (Some ((extracted ''No title found'' [] ''http://x.org/a'' ''requests (partial extraction)'')
        \<lparr>warning := Some
           ''Content may be incomplete - consider manual paste for full article''\<rparr>),
      [DirectHTTP])"
  by code_simp

lemma article_page_fetched:
  "fetch_article_content world_with_article ''http://x.org/b'' False =
     (Some (extracted ''Budget'' related_text ''http://x.org/b'' ''requests''), [DirectHTTP])"
  by code_simp

lemma newspaper_floor:
  "success (fetch_with_newspaper3k a r u) \<Longrightarrow>
     50 < length (get_content (fetch_with_newspaper3k a r u))"
  by (auto simp: fetch_with_newspaper3k_def failure_def fetched_def get_content_def split: article_reply.splits if_splits)

lemma rss_find_entry_method: "rss_find_entry u es = Some r \<Longrightarrow> method_name r = Some ''rss_feed''"
  by (induction es) (auto simp: fetched_def split: if_splits)

lemma rss_try_paths_method: "rss_try_paths w u base ps = Some r \<Longrightarrow> method_name r = Some ''rss_feed''"
  by (induction ps) (auto dest: rss_find_entry_method split: option.splits)

lemma rss_method: "success (try_rss_feed w u) \<Longrightarrow> method_name (try_rss_feed w u) = Some ''rss_feed''"
  by (auto simp: try_rss_feed_def failure_def dest: rss_try_paths_method split: option.splits)

lemma try_fallbacks_cases:
  assumes "try_fallbacks accept u (fallback_methods w) = (Some r, tr)"
  shows "success r \<and> accept r"
  using assms by (auto simp: fallback_methods_def Let_def split: if_splits)

lemma run_fallbacks_over_50:
  assumes "run_fallbacks w u fb accept_over_50 = (Some r, tr)"
  shows "50 < length (get_content r)"
  using assms try_fallbacks_cases[of accept_over_50 u w r tr]
  by (auto simp: run_fallbacks_def accept_over_50_def split: if_splits)

lemma run_fallbacks_any:
  assumes "run_fallbacks w u fb accept_any = (Some r, tr)" "method_name r \<noteq> Some ''rss_feed''"
  shows "50 < length (get_content r)"
  using assms newspaper_floor rss_method
  by (auto simp: run_fallbacks_def fallback_methods_def Let_def split: if_splits)

lemma or_else_cases:
  assumes "or_else called fbr otherwise = (Some r, tr)"
  shows "(\<exists>tr'. fbr = (Some r, tr')) \<or> (fst fbr = None \<and> otherwise = Some r)"
  using assms by (auto simp: or_else_def split: prod.splits option.splits)

lemma page_floor:
  assumes "fetch_from_page w u fb called p = (Some r, tr)" "success r"
    "method_name r \<noteq> Some ''requests (partial extraction)''"
  shows "50 \<le> length (get_content r)"
proof (cases "lacking 80 (extract_content p)")
  case True
  with assms(1) have "or_else called (run_fallbacks w u fb accept_over_50)
                (if extract_content p \<noteq> None \<and> 50 \<le> length (get_or (extract_content p) [])
                 then Some ((extracted (extract_title p title_selectors ''No title found'') (clean_partial (get_or (extract_content p) [])) u
                        ''requests (partial extraction)'')
                      \<lparr>warning := Some
                        ''Content may be incomplete - consider manual paste for full article''\<rparr>)
                 else Some (error_insufficient u)) = (Some r, tr)"
    by (simp add: fetch_from_page_def Let_def)
  from or_else_cases[OF this] show ?thesis
    using assms(2,3) run_fallbacks_over_50[of w u fb r]
    by (auto simp: extracted_def fetched_def error_insufficient_def failure_def split: if_splits)
next
  case False
  let ?cleaned = "clean_content (get_or (extract_content p) [])"
  show ?thesis
  proof (cases "80 \<le> length ?cleaned")
    case True
    with False assms(1)
    have "r = extracted (extract_title p title_selectors ''No title found'') ?cleaned u ''requests''"
      by (simp add: fetch_from_page_def Let_def)
    then show ?thesis using True by (simp add: extracted_def fetched_def get_content_def)
  next
    case c: False
    have "or_else called (run_fallbacks w u fb accept_over_50)
            (if ?cleaned \<noteq> [] \<and> 50 \<le> length ?cleaned
             then Some ((extracted (extract_title p title_selectors ''No title found'') ?cleaned u
                          ''requests (partial)'')
                        \<lparr>warning := Some ''Content may be incomplete''\<rparr>)
             else None) = (Some r, tr)"
      using assms(1) unfolding fetch_from_page_def Let_def by (simp only: False c if_False)
    from or_else_cases[OF this] show ?thesis
      using run_fallbacks_over_50[of w u fb r]
      by (auto simp: extracted_def fetched_def get_content_def split: if_splits)
  qed
qed

text \<open>
  X1: a result of the chain that reports success has at least 50 characters of content,
  unless it is a feed's result or a partial extraction.
\<close>

theorem success_floor_outside_feed_and_partial:
  assumes "fetch_article_content w u fb = (Some r, tr)" "success r"
    "method_name r \<noteq> Some ''rss_feed''"
    "method_name r \<noteq> Some ''requests (partial extraction)''"
  shows "50 \<le> length (get_content r)"
proof (cases "fb \<and> success (fetch_with_newspaper3k (newspaper_available w) (article_first w) u)
     \<and> 100 < length (get_content (fetch_with_newspaper3k (newspaper_available w) (article_first w) u))")
  case True
  with assms(1) show ?thesis by (auto simp: fetch_article_content_def Let_def)
next
  case False
  define called where "called = (if fb then [Newspaper3k] else []) @ [DirectHTTP]"
  from False assms(1) have e: "(case http_get w of
                 Timeout \<Rightarrow>
                   (Some ((failure ''Request timed out. The website may be slow or unreachable.'')
                      \<lparr>url := Some u\<rparr>), called)
               | ConnectionError \<Rightarrow>
                   (Some ((failure ''Connection error. Please check your internet connection.'')
                      \<lparr>url := Some u\<rparr>), called)
               | OtherError msg \<Rightarrow> (Some (error_other u msg), called)
               | Response code reason doc \<Rightarrow>
                   if code = 401
                   then or_else called (run_fallbacks w u fb accept_any)
                          (Some (error_401 u))
                   else if code = 403
                   then or_else called (run_fallbacks w u fb accept_any)
                          (Some (error_403 u))
                   else if code = 404 then (Some (error_404 u), called)
                   else if 400 \<le> code \<and> code < 600 then (Some (error_http u code reason), called)
                   else (case doc of
                           SoupRaises msg \<Rightarrow> (Some (error_other u msg), called)
                         | Soup p \<Rightarrow> fetch_from_page w u fb called p)) = (Some r, tr)"
    unfolding fetch_article_content_def called_def Let_def by (simp only: if_False)
  show ?thesis
  proof (cases "http_get w")
    case Timeout
    with e assms(2) show ?thesis by (auto simp: failure_def)
  next
    case ConnectionError
    with e assms(2) show ?thesis by (auto simp: failure_def)
  next
    case (OtherError x3)
    with e assms(2) show ?thesis by (auto simp: failure_def error_other_def)
  next
    case (Response code reason doc)
    with e have e': "(if code = 401
                   then or_else called (run_fallbacks w u fb accept_any)
                          (Some (error_401 u))
                   else if code = 403
                   then or_else called (run_fallbacks w u fb accept_any)
                          (Some (error_403 u))
                   else if code = 404 then (Some (error_404 u), called)
                   else if 400 \<le> code \<and> code < 600 then (Some (error_http u code reason), called)
                   else (case doc of
                           SoupRaises msg \<Rightarrow> (Some (error_other u msg), called)
                         | Soup p \<Rightarrow> fetch_from_page w u fb called p)) = (Some r, tr)" by simp
    consider "code = 401" | "code = 403" | "code = 404" | "code \<notin> {401, 403, 404}" "400 \<le> code \<and> code < 600"
      | "code \<notin> {401, 403, 404}" "\<not> (400 \<le> code \<and> code < 600)" by auto
    then show ?thesis
    proof cases
      case 1
      with e' have "or_else called (run_fallbacks w u fb accept_any) (Some (error_401 u)) = (Some r, tr)" by simp
      from or_else_cases[OF this] show ?thesis using assms(2,3) run_fallbacks_any[of w u fb r]
        by (auto simp: error_401_def failure_def)
    next
      case 2
      with e' have "or_else called (run_fallbacks w u fb accept_any) (Some (error_403 u)) = (Some r, tr)" by simp
      from or_else_cases[OF this] show ?thesis using assms(2,3) run_fallbacks_any[of w u fb r]
        by (auto simp: error_403_def failure_def)
    next
      case 3
      with e' assms(2) show ?thesis by (auto simp: error_404_def failure_def)
    next
      case 4
      with e' assms(2) show ?thesis by (auto simp: error_http_def failure_def)
    next
      case 5
      show ?thesis
      proof (cases doc)
        case (SoupRaises msg)
        with 5 e' assms(2) show ?thesis by (auto simp: error_other_def failure_def)
      next
        case (Soup p)
        with 5 e' have "fetch_from_page w u fb called p = (Some r, tr)" by auto
        from page_floor[OF this assms(2,4)] show ?thesis .
      qed
    qed
  qed
qed


text \<open>X1 at the page with an article of 139 characters.\<close>

theorem success_floor_witness:
  "fetch_article_content world_with_article ''http://x.org/b'' False =
     (Some (extracted ''Budget'' related_text ''http://x.org/b'' ''requests''), [DirectHTTP])
   \<and> success (extracted ''Budget'' related_text ''http://x.org/b'' ''requests'')
   \<and> 50 \<le> length (get_content (extracted ''Budget'' related_text ''http://x.org/b'' ''requests''))"
  using success_floor_outside_feed_and_partial [OF article_page_fetched]
  by (simp add: article_page_fetched extracted_def fetched_def)

text \<open>
  X2: no returned candidate has the article's own URL, and no returned candidate from a
  feed has a URL that contains it.
\<close>

theorem no_self_match:
  assumes "c \<in> set (find_related_articles order w u title_text content_text m)"
  shows "article_url c \<noteq> u \<and> (source c = ''rss_feed'' \<longrightarrow> \<not> sublist u (article_url c))"
  by (rule find_related_inv[where P = "\<lambda>c. article_url c \<noteq> u \<and>
         (source c = ''rss_feed'' \<longrightarrow> \<not> sublist u (article_url c))", OF _ _ assms])
     (simp_all add: rss_candidate_def link_candidate_def)

text \<open>X2 at the candidate the site's block of links gives.\<close>

theorem no_self_match_witness:
  "link_candidate ''http://x.org/b'' ''budget news today'' 1
     \<in> set (find_related_articles (\<lambda>xs. xs) site_with_related_link ''http://x.org/a''
              ''budget'' [] 5)
   \<and> article_url (link_candidate ''http://x.org/b'' ''budget news today'' 1) \<noteq> ''http://x.org/a''"
  using no_self_match [of "link_candidate ''http://x.org/b'' ''budget news today'' 1"
      "\<lambda>xs. xs" site_with_related_link "''http://x.org/a''" "''budget''" "[]" 5]
  by (simp add: related_link_found)

lemma sorted_slice_to: "sorted (map f xs) \<Longrightarrow> sorted (map f (slice_to n xs))"
  by (simp add: slice_to_def take_map[symmetric] sorted_wrt_take del: take_map)

text \<open>
  X3: the returned candidates are in descending order of score, and there are at most
  \<open>max_articles\<close> of them when that number is not negative.
\<close>

theorem candidates_ranked_and_limited:
  "sorted (map (\<lambda>a. - relevance_score a)
             (find_related_articles order w u title_text content_text m))
   \<and> (0 \<le> m \<longrightarrow> length (find_related_articles order w u title_text content_text m) \<le> nat m)"
  by (cases "origin_of w u")
     (simp_all add: find_related_articles_def Let_def sorted_slice_to, simp add: slice_to_def)

text \<open>X3 at the site with one link.\<close>

theorem candidates_ranked_and_limited_witness:
  "sorted (map (\<lambda>a. - relevance_score a)
             (find_related_articles (\<lambda>xs. xs) site_with_related_link ''http://x.org/a''
                ''budget'' [] 5))
   \<and> length (find_related_articles (\<lambda>xs. xs) site_with_related_link ''http://x.org/a''
                ''budget'' [] 5) \<le> 5"
  using candidates_ranked_and_limited [of "\<lambda>xs. xs" site_with_related_link "''http://x.org/a''"
      "''budget''" "[]" 5]
  by simp

end
